theory Spec2Isabelle
  imports Complex_Main
begin

section \<open>The dashboard renderer of main.js\<close>

text \<open>
  The script main.js renders a price table, a single-coin chart and an alert list from
  data that arrives over a socket or from two HTTP reads. This theory embeds its functions
  in HOL and proves the properties its specification states.

  The script is JavaScript, so its values are dynamically typed and every property read or
  call may raise. The embedding keeps both: values are a datatype \<open>jsval\<close>, and a
  computation that may raise returns \<open>error + 'a\<close>; a function that writes to the
  page returns an outcome together with the state it has reached, since an exception leaves
  the writes made before it in place.
\<close>

subsection \<open>Values\<close>

text \<open>
  Every exception the script can meet on values decoded from JSON is a TypeError (a
  property read on undefined or null, a call of something that is no function, a failing
  conversion to a primitive).
\<close>

datatype error = TypeError

text \<open>
  A number is a binary64 value. A finite one is written by a rational, and the formatter
  below rounds that rational exactly. Rounding a decimal literal to binary64 is not part of
  the model: where a literal of the specification is no binary64 value (\<open>-3.456\<close>),
  the property is proved at the literal and at the binary64 value nearest to it. Negative
  zero, NaN and the infinities are separate values.
\<close>

datatype jsnum = Fin rat | NegZero | NaN | PosInf | NegInf

text \<open>
  The values \<open>JSON.parse\<close> produces, and undefined. An object is the list of its own
  properties in the order \<open>Object.entries\<close> enumerates them; its keys are distinct.
  A string is the list of its code units, which the model takes to be ASCII.
\<close>

datatype jsval =
    JUndefined
  | JNull
  | JBool bool
  | JNum jsnum
  | JStr string
  | JArr "jsval list"
  | JObj "(string \<times> jsval) list"

type_synonym jsobj = "(string \<times> jsval) list"

text \<open>
  The engine converts strings and arrays to numbers by parsing and printing decimal
  literals, with binary64 rounding. The model does not fix these conversions: it takes them
  as a parameter, one for \<open>ToNumber\<close> (used by \<open>>=\<close> and \<open>*\<close>) and one for the
  conversion \<open>Intl.NumberFormat\<close> applies to its argument. Either may raise, as the
  conversion of an array converts its elements. Every property proved below with a
  variable \<open>eng\<close> holds for every engine.
\<close>

record engine =
  string_to_number :: "jsval \<Rightarrow> error + jsnum"
  string_to_intl :: "jsval \<Rightarrow> error + jsnum"

definition bind :: "error + 'a \<Rightarrow> ('a \<Rightarrow> error + 'b) \<Rightarrow> error + 'b" where
  "bind m f = (case m of Inl e \<Rightarrow> Inl e | Inr v \<Rightarrow> f v)"

fun map_err :: "('a \<Rightarrow> error + 'b) \<Rightarrow> 'a list \<Rightarrow> error + 'b list" where
  "map_err f [] = Inr []"
| "map_err f (a # as) = bind (f a) (\<lambda>b. bind (map_err f as) (\<lambda>bs. Inr (b # bs)))"

text \<open>\<open>ToBoolean\<close>: what \<open>if (v)\<close>, \<open>!v\<close> and \<open>v || 0\<close> test.\<close>

fun truthy :: "jsval \<Rightarrow> bool" where
  "truthy JUndefined = False"
| "truthy JNull = False"
| "truthy (JBool b) = b"
| "truthy (JNum n) = (n \<noteq> Fin 0 \<and> n \<noteq> NegZero \<and> n \<noteq> NaN)"
| "truthy (JStr s) = (s \<noteq> [])"
| "truthy (JArr xs) = True"
| "truthy (JObj kvs) = True"

text \<open>\<open>v || 0\<close>\<close>

definition or_zero :: "jsval \<Rightarrow> jsval" where
  "or_zero v = (if truthy v then v else JNum (Fin 0))"

text \<open>
  \<open>v.k\<close> for the field names the script reads (usd, usd_24h_change, rsi, ma_7, ma_30,
  alerts, type, threshold, timestamp, price), none of which a prototype defines: the read
  raises on undefined and null, finds an own property of an object, and is undefined
  otherwise.
\<close>

fun get_field :: "jsval \<Rightarrow> string \<Rightarrow> error + jsval" where
  "get_field JUndefined k = Inl TypeError"
| "get_field JNull k = Inl TypeError"
| "get_field (JObj kvs) k = Inr (case map_of kvs k of Some v \<Rightarrow> v | None \<Rightarrow> JUndefined)"
| "get_field v k = Inr JUndefined"

text \<open>
  \<open>ToNumber\<close>. An object decoded from JSON has no callable property of its own, so its
  conversion to a primitive ends in the inherited \<open>toString\<close> (giving a string that is no
  number) unless an own property hides that method, in which case it raises.
\<close>

definition ToNumber :: "engine \<Rightarrow> jsval \<Rightarrow> error + jsnum" where
  "ToNumber eng v =
     (case v of
        JUndefined \<Rightarrow> Inr NaN
      | JNull \<Rightarrow> Inr (Fin 0)
      | JBool b \<Rightarrow> Inr (Fin (if b then 1 else 0))
      | JNum n \<Rightarrow> Inr n
      | JObj kvs \<Rightarrow> (if map_of kvs ''toString'' = None then Inr NaN else Inl TypeError)
      | _ \<Rightarrow> string_to_number eng v)"

text \<open>The conversion \<open>Intl.NumberFormat.prototype.format\<close> applies to its argument.\<close>

definition ToIntlMathematicalValue :: "engine \<Rightarrow> jsval \<Rightarrow> error + jsnum" where
  "ToIntlMathematicalValue eng v =
     (case v of
        JUndefined \<Rightarrow> Inr NaN
      | JNull \<Rightarrow> Inr (Fin 0)
      | JBool b \<Rightarrow> Inr (Fin (if b then 1 else 0))
      | JNum n \<Rightarrow> Inr n
      | JObj kvs \<Rightarrow> (if map_of kvs ''toString'' = None then Inr NaN else Inl TypeError)
      | _ \<Rightarrow> string_to_intl eng v)"

text \<open>\<open>n >= 0\<close> on numbers: false for NaN, true for both zeros.\<close>

fun num_ge0 :: "jsnum \<Rightarrow> bool" where
  "num_ge0 (Fin q) = (0 \<le> q)"
| "num_ge0 NegZero = True"
| "num_ge0 NaN = False"
| "num_ge0 PosInf = True"
| "num_ge0 NegInf = False"

text \<open>\<open>v >= 0\<close>: the operand is converted by \<open>ToNumber\<close>, which may raise.\<close>

definition ge0 :: "engine \<Rightarrow> jsval \<Rightarrow> error + bool" where
  "ge0 eng v = bind (ToNumber eng v) (\<lambda>n. Inr (num_ge0 n))"

subsection \<open>Strings\<close>

definition dq :: string where
  "dq = [CHR 0x22]"

definition nl :: string where
  "nl = [CHR 0x0A]"

definition spaces :: "nat \<Rightarrow> string" where
  "spaces n = replicate n CHR '' ''"

text \<open>\<open>String.prototype.toUpperCase\<close> on ASCII.\<close>

definition upper_char :: "char \<Rightarrow> char" where
  "upper_char c =
     (case map_of (zip ''abcdefghijklmnopqrstuvwxyz'' ''ABCDEFGHIJKLMNOPQRSTUVWXYZ'') c of
        Some u \<Rightarrow> u
      | None \<Rightarrow> c)"

definition toUpperCase :: "string \<Rightarrow> string" where
  "toUpperCase s = map upper_char s"

text \<open>\<open>String.prototype.includes\<close>\<close>

fun str_includes :: "string \<Rightarrow> string \<Rightarrow> bool" where
  "str_includes [] sub = (sub = [])"
| "str_includes (c # cs) sub = (take (length sub) (c # cs) = sub \<or> str_includes cs sub)"

subsection \<open>Number formatting\<close>

text \<open>
  \<open>Intl.NumberFormat('en-US', {minimumFractionDigits: d, maximumFractionDigits: d})\<close>:
  the magnitude is rounded to \<open>d\<close> fraction digits, a tie going away from zero; the
  integer digits are grouped in threes by commas; a negative number, negative zero included,
  gets a minus sign.
\<close>

definition digit_char :: "nat \<Rightarrow> char" where
  "digit_char n = ''0123456789'' ! n"

function dec_digits :: "nat \<Rightarrow> string" where
  "dec_digits n =
     (if n < 10 then [digit_char n] else dec_digits (n div 10) @ [digit_char (n mod 10)])"
  by pat_completeness auto
termination
  by (relation "measure id") auto

declare dec_digits.simps [simp del]

function group_thousands :: "string \<Rightarrow> string" where
  "group_thousands ds =
     (if length ds \<le> 3 then ds
      else group_thousands (take (length ds - 3) ds) @ '','' @ drop (length ds - 3) ds)"
  by pat_completeness auto
termination
  by (relation "measure length") auto

declare group_thousands.simps [simp del]

definition pad_zeros :: "nat \<Rightarrow> string \<Rightarrow> string" where
  "pad_zeros d ds = replicate (d - length ds) CHR ''0'' @ ds"

definition format_magnitude :: "nat \<Rightarrow> rat \<Rightarrow> string" where
  "format_magnitude d q =
     (let n = nat \<lfloor>q * 10 ^ d + 1 / 2\<rfloor>
      in group_thousands (dec_digits (n div 10 ^ d)) @
         (if d = 0 then [] else ''.'' @ pad_zeros d (dec_digits (n mod 10 ^ d))))"

text \<open>The infinity sign U+221E, written as its three UTF-8 bytes.\<close>

definition infinity_sign :: string where
  "infinity_sign = [CHR 0xE2, CHR 0x88, CHR 0x9E]"

fun intl_format :: "nat \<Rightarrow> jsnum \<Rightarrow> string" where
  "intl_format d NaN = ''NaN''"
| "intl_format d PosInf = infinity_sign"
| "intl_format d NegInf = ''-'' @ infinity_sign"
| "intl_format d NegZero = ''-'' @ format_magnitude d 0"
| "intl_format d (Fin q) =
     (if q < 0 then ''-'' @ format_magnitude d (- q) else format_magnitude d q)"

text \<open>
  \<open>formatNumber(num, decimals = 2)\<close>. No call in the script passes \<open>decimals\<close>, so the
  default is the only value it takes.
\<close>

definition decimals :: nat where
  "decimals = 2"

definition formatNumber :: "engine \<Rightarrow> jsval \<Rightarrow> error + string" where
  "formatNumber eng num =
     bind (ToIntlMathematicalValue eng num) (\<lambda>n. Inr (intl_format decimals n))"

definition formatPrice :: "engine \<Rightarrow> jsval \<Rightarrow> error + string" where
  "formatPrice eng price = bind (formatNumber eng price) (\<lambda>t. Inr (''$'' @ t))"

text \<open>
  \<open>formatChange\<close> tests \<open>change >= 0\<close> for the sign and again for the class; the two
  tests agree, so the model makes the test once.
\<close>

definition formatChange :: "engine \<Rightarrow> jsval \<Rightarrow> error + string" where
  "formatChange eng change =
     bind (ge0 eng change) (\<lambda>nonneg.
       let sign = (if nonneg then ''+'' else '''');
           cls = (if nonneg then ''positive-change'' else ''negative-change'')
       in bind (formatNumber eng change) (\<lambda>t.
            Inr (''<span class='' @ dq @ cls @ dq @ ''>'' @ sign @ t @ ''%</span>'')))"

subsection \<open>The page and the renderer's state\<close>

text \<open>
  An element the script creates: a table row carries its markup and the coin its click
  handler selects; an alert entry carries a class name and its markup. \<open>innerHTML\<close> is
  the string the script assigns.
\<close>

record element =
  tag :: string
  className :: string
  innerHTML :: string
  onclick :: "string option"

text \<open>\<open>new Date(n * 1000)\<close>, kept as the number \<open>n\<close> of seconds it is built from.\<close>

datatype jsdate = DateOfSeconds jsnum

record trace =
  trace_x :: "jsdate list"
  trace_y :: "jsval list"
  trace_type :: string
  trace_name :: string
  trace_line_color :: string

record layout =
  paper_bgcolor :: string
  plot_bgcolor :: string
  font_color :: string
  xaxis_gridcolor :: string
  yaxis_gridcolor :: string

record plot =
  plot_data :: "trace list"
  plot_layout :: layout

text \<open>
  The two globals of the script, the three regions of the page it writes (the children of
  \<open>priceTable\<close>, the children of \<open>alertsList\<close>, the plot in \<open>priceChart\<close>),
  the requests it has issued and the lines it has logged. The three regions are assumed to
  exist in the page. The history held is a JSON object or absent (undefined, null).
\<close>

record state =
  selectedCoin :: string
  priceHistory :: "jsobj option"
  priceTable :: "element list"
  alertsList :: "element list"
  priceChart :: "plot option"
  requests :: "string list"
  console :: "string list"

datatype outcome = Done | Threw error

text \<open>Sequencing of statements: an exception skips what follows.\<close>

definition and_then :: "outcome \<times> state \<Rightarrow> (state \<Rightarrow> outcome \<times> state) \<Rightarrow> outcome \<times> state" where
  "and_then r f = (case r of (Done, s) \<Rightarrow> f s | (Threw e, s) \<Rightarrow> (Threw e, s))"

text \<open>
  \<open>Object.entries\<close>: it raises on undefined and null, lists the own properties of an
  object, the indexed elements of an array and the characters of a string, and is empty
  for the other primitives.
\<close>

fun entries :: "jsval \<Rightarrow> error + (string \<times> jsval) list" where
  "entries JUndefined = Inl TypeError"
| "entries JNull = Inl TypeError"
| "entries (JObj kvs) = Inr kvs"
| "entries (JArr xs) = Inr (zip (map dec_digits [0..<length xs]) xs)"
| "entries (JStr s) = Inr (zip (map dec_digits [0..<length s]) (map (\<lambda>c. JStr [c]) s))"
| "entries v = Inr []"

subsection \<open>updatePriceTable\<close>

text \<open>\<open>coin.charAt(0).toUpperCase() + coin.slice(1)\<close>\<close>

definition capitalise :: "string \<Rightarrow> string" where
  "capitalise coin = toUpperCase (take 1 coin) @ drop 1 coin"

text \<open>The template literal of a row: six cells, each on a line of its own.\<close>

definition row_template :: "string list \<Rightarrow> string" where
  "row_template cells =
     concat (map (\<lambda>c. nl @ spaces 12 @ ''<td>'' @ c @ ''</td>'') cells) @ nl @ spaces 8"

text \<open>
  The substitutions of the template, evaluated from left to right; the first that raises
  ends the evaluation.
\<close>

definition row_cells :: "engine \<Rightarrow> string \<Rightarrow> jsval \<Rightarrow> error + string list" where
  "row_cells eng coin info =
     bind (get_field info ''usd'') (\<lambda>usd.
     bind (formatPrice eng usd) (\<lambda>c2.
     bind (get_field info ''usd_24h_change'') (\<lambda>chg.
     bind (formatChange eng chg) (\<lambda>c3.
     bind (get_field info ''rsi'') (\<lambda>rsi.
     bind (formatNumber eng (or_zero rsi)) (\<lambda>c4.
     bind (get_field info ''ma_7'') (\<lambda>ma7.
     bind (formatPrice eng (or_zero ma7)) (\<lambda>c5.
     bind (get_field info ''ma_30'') (\<lambda>ma30.
     bind (formatPrice eng (or_zero ma30)) (\<lambda>c6.
       Inr [capitalise coin, c2, c3, c4, c5, c6]))))))))))"

text \<open>The body of the loop up to \<open>appendChild\<close>: the row for one coin.\<close>

definition make_row :: "engine \<Rightarrow> string \<Rightarrow> jsval \<Rightarrow> error + element" where
  "make_row eng coin info =
     bind (row_cells eng coin info) (\<lambda>cells.
       Inr \<lparr>tag = ''tr'', className = [], innerHTML = row_template cells,
            onclick = Some coin\<rparr>)"

fun append_rows :: "engine \<Rightarrow> (string \<times> jsval) list \<Rightarrow> state \<Rightarrow> outcome \<times> state" where
  "append_rows eng [] s = (Done, s)"
| "append_rows eng ((coin, info) # rest) s =
     (case make_row eng coin info of
        Inl e \<Rightarrow> (Threw e, s)
      | Inr r \<Rightarrow> append_rows eng rest (s\<lparr>priceTable := priceTable s @ [r]\<rparr>))"

definition updatePriceTable :: "engine \<Rightarrow> jsval \<Rightarrow> state \<Rightarrow> outcome \<times> state" where
  "updatePriceTable eng data s =
     (let s1 = s\<lparr>priceTable := []\<rparr>
      in case entries data of
           Inl e \<Rightarrow> (Threw e, s1)
         | Inr kvs \<Rightarrow> append_rows eng kvs s1)"

subsection \<open>updatePriceChart\<close>

text \<open>
  The string-keyed properties every object inherits from \<open>Object.prototype\<close>. Read
  through \<open>history[coin]\<close> they are functions (or the prototype itself): truthy, and
  without a \<open>map\<close> method.
\<close>

definition object_prototype_names :: "string list" where
  "object_prototype_names =
     [''constructor'', ''hasOwnProperty'', ''isPrototypeOf'', ''propertyIsEnumerable'',
      ''toLocaleString'', ''toString'', ''valueOf'', ''__proto__'', ''__defineGetter__'',
      ''__defineSetter__'', ''__lookupGetter__'', ''__lookupSetter__'']"

definition chart_layout :: layout where
  "chart_layout =
     \<lparr>paper_bgcolor = ''rgba(0,0,0,0)'', plot_bgcolor = ''rgba(0,0,0,0)'',
      font_color = ''#ffffff'', xaxis_gridcolor = ''#404040'', yaxis_gridcolor = ''#404040''\<rparr>"

text \<open>
  The two \<open>map\<close> calls and the trace built from them; \<open>d.timestamp * 1000\<close> converts
  the timestamp by \<open>ToNumber\<close>.
\<close>

definition make_trace :: "engine \<Rightarrow> string \<Rightarrow> jsval list \<Rightarrow> error + trace" where
  "make_trace eng coin ds =
     bind (map_err (\<lambda>d. bind (get_field d ''timestamp'') (\<lambda>t.
                          bind (ToNumber eng t) (\<lambda>n. Inr (DateOfSeconds n)))) ds) (\<lambda>timestamps.
     bind (map_err (\<lambda>d. get_field d ''price'') ds) (\<lambda>prices.
       Inr \<lparr>trace_x = timestamps, trace_y = prices, trace_type = ''scatter'',
            trace_name = toUpperCase coin, trace_line_color = ''#00ff00''\<rparr>))"

definition updatePriceChart :: "engine \<Rightarrow> string \<Rightarrow> jsobj option \<Rightarrow> state \<Rightarrow> outcome \<times> state" where
  "updatePriceChart eng coin history s =
     (case history of
        None \<Rightarrow> (Done, s)
      | Some kvs \<Rightarrow>
          (case map_of kvs coin of
             None \<Rightarrow>
               if coin \<in> set object_prototype_names then (Threw TypeError, s) else (Done, s)
           | Some v \<Rightarrow>
               if \<not> truthy v then (Done, s)
               else (case v of
                       JArr ds \<Rightarrow>
                         (case make_trace eng coin ds of
                            Inl e \<Rightarrow> (Threw e, s)
                          | Inr t \<Rightarrow>
                              (Done, s\<lparr>priceChart :=
                                 Some \<lparr>plot_data = [t], plot_layout = chart_layout\<rparr>\<rparr>))
                     | _ \<Rightarrow> (Threw TypeError, s))))"

subsection \<open>updateAlerts\<close>

text \<open>The body of the inner loop up to \<open>appendChild\<close>: the entry for one alert.\<close>

definition make_alert :: "engine \<Rightarrow> string \<Rightarrow> jsval \<Rightarrow> error + element" where
  "make_alert eng coin alert =
     bind (get_field alert ''type'') (\<lambda>ty.
     bind (get_field alert ''threshold'') (\<lambda>threshold.
     bind (formatPrice eng threshold) (\<lambda>p.
       Inr \<lparr>tag = ''div'',
            className = ''alert alert-'' @ (if ty = JStr ''high'' then ''high'' else ''low''),
            innerHTML = nl @ spaces 20 @ ''<strong>'' @ toUpperCase coin @ ''</strong> price is '' @
              (if ty = JStr ''high'' then ''above'' else ''below'') @ '' '' @ p @ nl @ spaces 16,
            onclick = None\<rparr>)))"

fun append_alerts :: "engine \<Rightarrow> string \<Rightarrow> jsval list \<Rightarrow> state \<Rightarrow> outcome \<times> state" where
  "append_alerts eng coin [] s = (Done, s)"
| "append_alerts eng coin (alert # rest) s =
     (case make_alert eng coin alert of
        Inl e \<Rightarrow> (Threw e, s)
      | Inr a \<Rightarrow> append_alerts eng coin rest (s\<lparr>alertsList := alertsList s @ [a]\<rparr>))"

text \<open>
  The outer loop. \<open>info.alerts.forEach\<close> is a function only when \<open>info.alerts\<close> is
  an array; on any other truthy value the call raises.
\<close>

fun coin_alerts :: "engine \<Rightarrow> (string \<times> jsval) list \<Rightarrow> state \<Rightarrow> outcome \<times> state" where
  "coin_alerts eng [] s = (Done, s)"
| "coin_alerts eng ((coin, info) # rest) s =
     (case get_field info ''alerts'' of
        Inl e \<Rightarrow> (Threw e, s)
      | Inr alerts \<Rightarrow>
          if truthy alerts
          then (case alerts of
                  JArr as \<Rightarrow> and_then (append_alerts eng coin as s) (coin_alerts eng rest)
                | _ \<Rightarrow> (Threw TypeError, s))
          else coin_alerts eng rest s)"

definition updateAlerts :: "engine \<Rightarrow> jsval \<Rightarrow> state \<Rightarrow> outcome \<times> state" where
  "updateAlerts eng data s =
     (let s1 = s\<lparr>alertsList := []\<rparr>
      in case entries data of
           Inl e \<Rightarrow> (Threw e, s1)
         | Inr kvs \<Rightarrow> coin_alerts eng kvs s1)"

subsection \<open>Events\<close>

definition selectCoin :: "engine \<Rightarrow> string \<Rightarrow> state \<Rightarrow> outcome \<times> state" where
  "selectCoin eng coin s =
     (let s1 = s\<lparr>selectedCoin := coin\<rparr>
      in updatePriceChart eng coin (priceHistory s1) s1)"


definition on_connect :: "state \<Rightarrow> outcome \<times> state" where
  "on_connect s = (Done, s\<lparr>console := console s @ [''Connected to server'']\<rparr>)"

text \<open>The payload of a \<open>price_update\<close> event.\<close>

record price_update =
  latest_data :: jsval
  price_history :: "jsobj option"

definition on_price_update :: "engine \<Rightarrow> price_update \<Rightarrow> state \<Rightarrow> outcome \<times> state" where
  "on_price_update eng data s =
     (let s1 = s\<lparr>priceHistory := price_history data\<rparr>
      in and_then (updatePriceTable eng (latest_data data) s1) (\<lambda>s2.
         and_then (updatePriceChart eng (selectedCoin s2) (priceHistory s2) s2) (\<lambda>s3.
         updateAlerts eng (latest_data data) s3)))"

text \<open>
  The script as loaded: the globals at their initial values, the two reads issued, the
  regions of the page empty.
\<close>

definition initial :: state where
  "initial =
     \<lparr>selectedCoin = ''bitcoin'', priceHistory = Some [], priceTable = [], alertsList = [],
      priceChart = None, requests = [''/api/latest'', ''/api/history''], console = []\<rparr>"

text \<open>The continuations of the two reads.\<close>

definition on_latest :: "engine \<Rightarrow> jsval \<Rightarrow> state \<Rightarrow> outcome \<times> state" where
  "on_latest eng data s = updatePriceTable eng data s"

definition on_history :: "engine \<Rightarrow> jsobj option \<Rightarrow> state \<Rightarrow> outcome \<times> state" where
  "on_history eng data s =
     (let s1 = s\<lparr>priceHistory := data\<rparr>
      in updatePriceChart eng (selectedCoin s1) (priceHistory s1) s1)"

subsection \<open>What a payload renders to\<close>

text \<open>
  The elements the loops append and the way they end, as functions of the payload alone.
  They are related to the loops in the lemmas \<open>append_rows_eq\<close>, \<open>append_alerts_eq\<close>
  and \<open>coin_alerts_eq\<close>; the properties of the renderer are proved through them.
\<close>

fun rows_of :: "engine \<Rightarrow> (string \<times> jsval) list \<Rightarrow> outcome \<times> element list" where
  "rows_of eng [] = (Done, [])"
| "rows_of eng ((coin, info) # rest) =
     (case make_row eng coin info of
        Inl e \<Rightarrow> (Threw e, [])
      | Inr r \<Rightarrow> (fst (rows_of eng rest), r # snd (rows_of eng rest)))"

fun alert_elements :: "engine \<Rightarrow> string \<Rightarrow> jsval list \<Rightarrow> outcome \<times> element list" where
  "alert_elements eng coin [] = (Done, [])"
| "alert_elements eng coin (alert # rest) =
     (case make_alert eng coin alert of
        Inl e \<Rightarrow> (Threw e, [])
      | Inr a \<Rightarrow> (fst (alert_elements eng coin rest), a # snd (alert_elements eng coin rest)))"

fun alerts_of :: "engine \<Rightarrow> (string \<times> jsval) list \<Rightarrow> outcome \<times> element list" where
  "alerts_of eng [] = (Done, [])"
| "alerts_of eng ((coin, info) # rest) =
     (case get_field info ''alerts'' of
        Inl e \<Rightarrow> (Threw e, [])
      | Inr alerts \<Rightarrow>
          if truthy alerts
          then (case alerts of
                  JArr as \<Rightarrow>
                    (case fst (alert_elements eng coin as) of
                       Done \<Rightarrow> (fst (alerts_of eng rest),
                                snd (alert_elements eng coin as) @ snd (alerts_of eng rest))
                     | Threw e \<Rightarrow> (Threw e, snd (alert_elements eng coin as)))
                | _ \<Rightarrow> (Threw TypeError, []))
          else alerts_of eng rest)"

definition table_of :: "engine \<Rightarrow> jsval \<Rightarrow> outcome \<times> element list" where
  "table_of eng data = (case entries data of Inl e \<Rightarrow> (Threw e, []) | Inr kvs \<Rightarrow> rows_of eng kvs)"

definition alert_list_of :: "engine \<Rightarrow> jsval \<Rightarrow> outcome \<times> element list" where
  "alert_list_of eng data =
     (case entries data of Inl e \<Rightarrow> (Threw e, []) | Inr kvs \<Rightarrow> alerts_of eng kvs)"

subsection \<open>Payloads with missing fields\<close>

text \<open>
  A field is missing when the property is absent (it reads as undefined) or null. The
  payloads described here have every numeric field missing or a number, and the alerts of a
  coin missing or an array of values whose threshold is missing or a number.
\<close>

fun number_or_missing :: "jsval \<Rightarrow> bool" where
  "number_or_missing JUndefined = True"
| "number_or_missing JNull = True"
| "number_or_missing (JNum n) = True"
| "number_or_missing v = False"

definition numeric_field :: "jsval \<Rightarrow> string \<Rightarrow> bool" where
  "numeric_field v k = (case get_field v k of Inl e \<Rightarrow> False | Inr x \<Rightarrow> number_or_missing x)"

definition alerts_or_missing :: "jsval \<Rightarrow> bool" where
  "alerts_or_missing alerts =
     (if truthy alerts
      then (case alerts of JArr as \<Rightarrow> list_all (\<lambda>a. numeric_field a ''threshold'') as | _ \<Rightarrow> False)
      else True)"

definition snapshot_or_missing :: "jsval \<Rightarrow> bool" where
  "snapshot_or_missing info =
     (numeric_field info ''usd'' \<and> numeric_field info ''usd_24h_change'' \<and>
      numeric_field info ''rsi'' \<and> numeric_field info ''ma_7'' \<and> numeric_field info ''ma_30'' \<and>
      (case get_field info ''alerts'' of Inl e \<Rightarrow> False | Inr alerts \<Rightarrow> alerts_or_missing alerts))"

subsection \<open>An engine for examples\<close>

text \<open>
  An engine for the closed examples below. Their inputs hold no string and no array where
  a number is read, so neither conversion is consulted.
\<close>

definition sample_engine :: engine where
  "sample_engine = \<lparr>string_to_number = (\<lambda>v. Inr NaN), string_to_intl = (\<lambda>v. Inr NaN)\<rparr>"

section \<open>Properties\<close>

subsection \<open>Evaluation\<close>

lemma floor_rat_numeral_div:
  "\<lfloor>numeral a / numeral b :: rat\<rfloor> = numeral a div numeral b"
  by (metis floor_divide_of_int_eq of_int_numeral)

lemmas eval_format =
  formatNumber_def formatPrice_def formatChange_def ge0_def ToNumber_def
  ToIntlMathematicalValue_def bind_def decimals_def format_magnitude_def pad_zeros_def
  digit_char_def floor_rat_numeral_div dq_def dec_digits.simps group_thousands.simps

lemmas eval_strings = toUpperCase_def upper_char_def capitalise_def nl_def spaces_def


lemmas eval_render =
  updatePriceTable_def updateAlerts_def updatePriceChart_def make_row_def row_cells_def
  row_template_def make_alert_def make_trace_def and_then_def selectCoin_def
  on_price_update_def initial_def sample_engine_def object_prototype_names_def
  chart_layout_def or_zero_def

lemma str_includes_append: "str_includes (pre @ sub @ post) sub"
proof (induction pre)
  case Nil
  have t: "take (length sub) (sub @ post) = sub" by simp
  show ?case
  proof (cases "sub @ post")
    case Nil
    then show ?thesis by simp
  next
    case (Cons a list)
    with t show ?thesis by simp
  qed
next
  case (Cons c pre)
  then show ?case by simp
qed

subsection \<open>The loops and the elements they append\<close>

lemma append_rows_eq:
  "append_rows eng kvs s =
     (fst (rows_of eng kvs), s\<lparr>priceTable := priceTable s @ snd (rows_of eng kvs)\<rparr>)"
  by (induction kvs arbitrary: s) (auto split: sum.splits)

lemma updatePriceTable_eq:
  "updatePriceTable eng data s =
     (fst (table_of eng data), s\<lparr>priceTable := snd (table_of eng data)\<rparr>)"
  by (simp add: updatePriceTable_def table_of_def append_rows_eq split: sum.splits)

lemma append_alerts_eq:
  "append_alerts eng coin as s =
     (fst (alert_elements eng coin as),
      s\<lparr>alertsList := alertsList s @ snd (alert_elements eng coin as)\<rparr>)"
  by (induction as arbitrary: s) (auto split: sum.splits)

lemma coin_alerts_eq:
  "coin_alerts eng kvs s =
     (fst (alerts_of eng kvs), s\<lparr>alertsList := alertsList s @ snd (alerts_of eng kvs)\<rparr>)"
proof (induction kvs arbitrary: s)
  case Nil
  show ?case by simp
next
  case (Cons kv kvs)
  obtain coin info where kv: "kv = (coin, info)" by (cases kv)
  show ?case
    unfolding kv
    by (simp add: Cons.IH append_alerts_eq and_then_def
        split: sum.splits jsval.splits outcome.splits)
qed

lemma updateAlerts_eq:
  "updateAlerts eng data s =
     (fst (alert_list_of eng data), s\<lparr>alertsList := snd (alert_list_of eng data)\<rparr>)"
  by (simp add: updateAlerts_def alert_list_of_def coin_alerts_eq split: sum.splits)





subsection \<open>Formatting\<close>







lemma formatChange_number:
  "formatChange eng (JNum n) =
     Inr (''<span class='' @ dq @
          (if num_ge0 n then ''positive-change'' else ''negative-change'') @ dq @ ''>'' @
          (if num_ge0 n then ''+'' else []) @ intl_format 2 n @ ''%</span>'')"
  by (simp add: formatChange_def ge0_def ToNumber_def formatNumber_def
      ToIntlMathematicalValue_def bind_def decimals_def)

text \<open>
  C6. \<open>formatChange\<close> renders a percentage with a plus sign in front of a non-negative
  number and a class that tells non-negative from negative. \<open>formatChange(-3.456)\<close> is
  \<open><span class="negative-change">-3.46%</span>\<close>, both at the decimal value -3.456 and
  at the binary64 value nearest to it, which is the number the script receives;
  \<open>formatChange(2)\<close> is \<open><span class="positive-change">+2.00%</span>\<close>.
\<close>

theorem formatChange_sign_and_class:
  "formatChange eng (JNum (Fin (- 3456 / 1000))) =
     Inr (''<span class='' @ dq @ ''negative-change'' @ dq @ ''>-3.46%</span>'') \<and>
   formatChange eng (JNum (Fin (- 7782220156096217 / 2251799813685248))) =
     Inr (''<span class='' @ dq @ ''negative-change'' @ dq @ ''>-3.46%</span>'') \<and>
   formatChange eng (JNum (Fin 2)) =
     Inr (''<span class='' @ dq @ ''positive-change'' @ dq @ ''>+2.00%</span>'') \<and>
   formatChange eng (JNum n) =
     Inr (''<span class='' @ dq @
          (if num_ge0 n then ''positive-change'' else ''negative-change'') @ dq @ ''>'' @
          (if num_ge0 n then ''+'' else []) @ intl_format 2 n @ ''%</span>'')"
proof (intro conjI)
  show "formatChange eng (JNum (Fin (- 3456 / 1000))) =
     Inr (''<span class='' @ dq @ ''negative-change'' @ dq @ ''>-3.46%</span>'')"
    by (simp add: eval_format)
  show "formatChange eng (JNum (Fin (- 7782220156096217 / 2251799813685248))) =
     Inr (''<span class='' @ dq @ ''negative-change'' @ dq @ ''>-3.46%</span>'')"
    by (simp add: eval_format)
  show "formatChange eng (JNum (Fin 2)) =
     Inr (''<span class='' @ dq @ ''positive-change'' @ dq @ ''>+2.00%</span>'')"
    by (simp add: eval_format)
  show "formatChange eng (JNum n) =
     Inr (''<span class='' @ dq @
          (if num_ge0 n then ''positive-change'' else ''negative-change'') @ dq @ ''>'' @
          (if num_ge0 n then ''+'' else []) @ intl_format 2 n @ ''%</span>'')"
    by (rule formatChange_number)
qed

subsection \<open>Re-rendering\<close>

lemma updatePriceChart_transfer:
  assumes "priceChart t = priceChart s"
  shows "updatePriceChart eng coin history t =
     (fst (updatePriceChart eng coin history s),
      t\<lparr>priceChart := priceChart (snd (updatePriceChart eng coin history s))\<rparr>)"
proof -
  have same: "t\<lparr>priceChart := priceChart s\<rparr> = t"
    using assms [symmetric] by simp
  show ?thesis
    by (simp add: updatePriceChart_def same split: option.splits sum.splits jsval.splits)
qed

text \<open>
  C8. Rendering is idempotent and replaces the whole region: a second call of
  \<open>updatePriceTable\<close>, or of \<open>updateAlerts\<close>, with the same data ends as the first
  did and leaves the state the first call left; and the region a call leaves is the same
  whatever the page held before, since the call clears the region and rebuilds it from the
  data.
\<close>

theorem rendering_idempotent:
  "updatePriceTable eng data (snd (updatePriceTable eng data s)) = updatePriceTable eng data s \<and>
   updateAlerts eng data (snd (updateAlerts eng data s)) = updateAlerts eng data s \<and>
   priceTable (snd (updatePriceTable eng data s)) = priceTable (snd (updatePriceTable eng data t)) \<and>
   alertsList (snd (updateAlerts eng data s)) = alertsList (snd (updateAlerts eng data t))"
  by (simp add: updatePriceTable_eq updateAlerts_eq)


lemma on_price_update_eq:
  "on_price_update eng data s =
     (case fst (table_of eng (latest_data data)) of
        Threw e \<Rightarrow>
          (Threw e, s\<lparr>priceHistory := price_history data,
                      priceTable := snd (table_of eng (latest_data data))\<rparr>)
      | Done \<Rightarrow>
          (case fst (updatePriceChart eng (selectedCoin s) (price_history data) s) of
             Threw e \<Rightarrow>
               (Threw e, s\<lparr>priceHistory := price_history data,
                           priceTable := snd (table_of eng (latest_data data))\<rparr>)
           | Done \<Rightarrow>
               (fst (alert_list_of eng (latest_data data)),
                s\<lparr>priceHistory := price_history data,
                  priceTable := snd (table_of eng (latest_data data)),
                  priceChart :=
                    priceChart (snd (updatePriceChart eng (selectedCoin s) (price_history data) s)),
                  alertsList := snd (alert_list_of eng (latest_data data))\<rparr>)))"
proof -
  let ?s2 = "s\<lparr>priceHistory := price_history data,
               priceTable := snd (table_of eng (latest_data data))\<rparr>"
  have c: "priceChart ?s2 = priceChart s" by simp
  have threw: "fst (updatePriceChart eng coin history s) = Threw e \<Longrightarrow>
      priceChart (snd (updatePriceChart eng coin history s)) = priceChart s" for coin history e
    by (simp add: updatePriceChart_def split: option.splits sum.splits jsval.splits if_splits)
  have same: "?s2\<lparr>priceChart := priceChart s\<rparr> = ?s2" by simp
  show ?thesis
    by (simp add: on_price_update_def and_then_def updatePriceTable_eq updateAlerts_eq
        updatePriceChart_transfer [OF c] threw split: outcome.splits)
qed



subsection \<open>The price table\<close>






subsection \<open>The alert list\<close>

lemma make_alert_Inr:
  assumes "make_alert eng coin alert = Inr e"
  shows "\<exists>ty threshold p.
     get_field alert ''type'' = Inr ty \<and> get_field alert ''threshold'' = Inr threshold \<and>
     formatPrice eng threshold = Inr p \<and>
     e = \<lparr>tag = ''div'',
          className = ''alert alert-'' @ (if ty = JStr ''high'' then ''high'' else ''low''),
          innerHTML = nl @ spaces 20 @ ''<strong>'' @ toUpperCase coin @ ''</strong> price is '' @
            (if ty = JStr ''high'' then ''above'' else ''below'') @ '' '' @ p @ nl @ spaces 16,
          onclick = None\<rparr>"
proof -
  from assms obtain ty where ty: "get_field alert ''type'' = Inr ty"
    by (cases "get_field alert ''type''") (simp_all add: make_alert_def bind_def)
  from assms ty obtain threshold where th: "get_field alert ''threshold'' = Inr threshold"
    by (cases "get_field alert ''threshold''") (simp_all add: make_alert_def bind_def)
  from assms ty th obtain p where p: "formatPrice eng threshold = Inr p"
    by (cases "formatPrice eng threshold") (simp_all add: make_alert_def bind_def)
  from assms have "e = \<lparr>tag = ''div'',
          className = ''alert alert-'' @ (if ty = JStr ''high'' then ''high'' else ''low''),
          innerHTML = nl @ spaces 20 @ ''<strong>'' @ toUpperCase coin @ ''</strong> price is '' @
            (if ty = JStr ''high'' then ''above'' else ''below'') @ '' '' @ p @ nl @ spaces 16,
          onclick = None\<rparr>"
    by (simp add: make_alert_def bind_def ty th p)
  with ty th p show ?thesis by blast
qed

lemma alert_elements_member:
  "fst (alert_elements eng coin as) = Done \<Longrightarrow> alert \<in> set as \<Longrightarrow>
   \<exists>e\<in>set (snd (alert_elements eng coin as)). make_alert eng coin alert = Inr e"
proof (induction as)
  case Nil
  then show ?case by simp
next
  case (Cons a as)
  from Cons.prems(1) obtain e where e: "make_alert eng coin a = Inr e"
    by (cases "make_alert eng coin a") simp_all
  with Cons.prems(1) have rest: "fst (alert_elements eng coin as) = Done" by simp
  show ?case
  proof (cases "alert = a")
    case True
    with e show ?thesis by simp
  next
    case False
    with Cons.prems(2) have "alert \<in> set as" by simp
    from Cons.IH [OF rest this] e show ?thesis by auto
  qed
qed

lemma alerts_of_member:
  "fst (alerts_of eng kvs) = Done \<Longrightarrow> (coin, info) \<in> set kvs \<Longrightarrow>
   get_field info ''alerts'' = Inr (JArr as) \<Longrightarrow> alert \<in> set as \<Longrightarrow>
   \<exists>e\<in>set (snd (alerts_of eng kvs)). make_alert eng coin alert = Inr e"
proof (induction kvs)
  case Nil
  then show ?case by simp
next
  case (Cons kv kvs)
  obtain c i where kv: "kv = (c, i)" by (cases kv)
  from Cons.prems(1) have rest: "fst (alerts_of eng kvs) = Done"
    unfolding kv by (auto split: sum.splits if_splits jsval.splits outcome.splits)
  show ?case
  proof (cases "(coin, info) = (c, i)")
    case True
    with Cons.prems(1,3) have "fst (alert_elements eng coin as) = Done"
      unfolding kv by (auto split: outcome.splits)
    from alert_elements_member [OF this Cons.prems(4)] obtain e
      where "e \<in> set (snd (alert_elements eng coin as))" "make_alert eng coin alert = Inr e"
      by blast
    with True Cons.prems(1,3) show ?thesis
      unfolding kv by (auto split: outcome.splits)
  next
    case False
    with Cons.prems(2) kv have "(coin, info) \<in> set kvs" by auto
    from Cons.IH [OF rest this Cons.prems(3,4)] obtain e
      where "e \<in> set (snd (alerts_of eng kvs))" "make_alert eng coin alert = Inr e"
      by blast
    with Cons.prems(1) show ?thesis
      unfolding kv by (auto split: sum.splits if_splits jsval.splits outcome.splits)
  qed
qed

text \<open>
  C10. Whenever \<open>updateAlerts\<close> returns normally, every alert of every coin of the
  payload has an entry in the alert list, and the entry depends on what \<open>alert.type\<close>
  reads (undefined when the field is absent): if it is the string \<open>high\<close>, the entry has
  the class \<open>alert-high\<close> and says \<open>above\<close> before the formatted threshold; for any
  other value it has the class \<open>alert-low\<close> and says \<open>below\<close>.
\<close>

theorem alert_low_unless_type_high:
  assumes "updateAlerts eng (JObj kvs) s = (Done, s')"
    and "(coin, info) \<in> set kvs"
    and "get_field info ''alerts'' = Inr (JArr as)"
    and "alert \<in> set as"
    and "get_field alert ''type'' = Inr ty"
  shows "\<exists>e threshold p.
     e \<in> set (alertsList s') \<and>
     get_field alert ''threshold'' = Inr threshold \<and> formatPrice eng threshold = Inr p \<and>
     className e = (if ty = JStr ''high'' then ''alert alert-high'' else ''alert alert-low'') \<and>
     str_includes (innerHTML e) ((if ty = JStr ''high'' then ''above '' else ''below '') @ p)"
proof -
  from assms(1) have ok: "fst (alerts_of eng kvs) = Done"
    and list: "alertsList s' = snd (alerts_of eng kvs)"
    by (auto simp: updateAlerts_eq alert_list_of_def)
  from alerts_of_member [OF ok assms(2,3,4)] obtain e
    where e: "e \<in> set (alertsList s')" and made: "make_alert eng coin alert = Inr e"
    unfolding list by blast
  from make_alert_Inr [OF made] assms(5) obtain threshold p
    where th: "get_field alert ''threshold'' = Inr threshold"
      and p: "formatPrice eng threshold = Inr p"
      and e_eq: "e = \<lparr>tag = ''div'',
          className = ''alert alert-'' @ (if ty = JStr ''high'' then ''high'' else ''low''),
          innerHTML = nl @ spaces 20 @ ''<strong>'' @ toUpperCase coin @ ''</strong> price is '' @
            (if ty = JStr ''high'' then ''above'' else ''below'') @ '' '' @ p @ nl @ spaces 16,
          onclick = None\<rparr>"
    by auto
  have cls: "className e =
      (if ty = JStr ''high'' then ''alert alert-high'' else ''alert alert-low'')"
    by (simp add: e_eq)
  have "innerHTML e =
      (nl @ spaces 20 @ ''<strong>'' @ toUpperCase coin @ ''</strong> price is '') @
      ((if ty = JStr ''high'' then ''above '' else ''below '') @ p) @ (nl @ spaces 16)"
    by (simp add: e_eq)
  then have inc: "str_includes (innerHTML e)
      ((if ty = JStr ''high'' then ''above '' else ''below '') @ p)"
    by (simp only: str_includes_append)
  from e th p cls inc show ?thesis
    by (intro exI [of _ e] exI [of _ threshold] exI [of _ p]) (intro conjI)
qed

theorem alert_low_unless_type_high_witness:
  "updateAlerts sample_engine
     (JObj [(''bitcoin'', JObj [(''alerts'', JArr [JObj [(''threshold'', JNum (Fin 40000))]])])])
     initial =
     (Done, initial\<lparr>alertsList :=
        [\<lparr>tag = ''div'', className = ''alert alert-low'',
          innerHTML = nl @ spaces 20 @ ''<strong>BITCOIN</strong> price is below $40,000.00'' @
            nl @ spaces 16,
          onclick = None\<rparr>]\<rparr>) \<and>
   (''bitcoin'', JObj [(''alerts'', JArr [JObj [(''threshold'', JNum (Fin 40000))]])]) \<in>
     set [(''bitcoin'', JObj [(''alerts'', JArr [JObj [(''threshold'', JNum (Fin 40000))]])])] \<and>
   get_field (JObj [(''alerts'', JArr [JObj [(''threshold'', JNum (Fin 40000))]])]) ''alerts'' =
     Inr (JArr [JObj [(''threshold'', JNum (Fin 40000))]]) \<and>
   JObj [(''threshold'', JNum (Fin 40000))] \<in> set [JObj [(''threshold'', JNum (Fin 40000))]] \<and>
   get_field (JObj [(''threshold'', JNum (Fin 40000))]) ''type'' = Inr JUndefined \<and>
   (\<exists>e threshold p.
      e \<in> set [\<lparr>tag = ''div'', className = ''alert alert-low'',
          innerHTML = nl @ spaces 20 @ ''<strong>BITCOIN</strong> price is below $40,000.00'' @
            nl @ spaces 16,
          onclick = None\<rparr>] \<and>
      get_field (JObj [(''threshold'', JNum (Fin 40000))]) ''threshold'' = Inr threshold \<and>
      formatPrice sample_engine threshold = Inr p \<and>
      className e = ''alert alert-low'' \<and> str_includes (innerHTML e) (''below '' @ p))"
proof -
  let ?alert = "JObj [(''threshold'', JNum (Fin 40000))]"
  let ?info = "JObj [(''alerts'', JArr [?alert])]"
  let ?s' = "initial\<lparr>alertsList :=
        [\<lparr>tag = ''div'', className = ''alert alert-low'',
          innerHTML = nl @ spaces 20 @ ''<strong>BITCOIN</strong> price is below $40,000.00'' @
            nl @ spaces 16,
          onclick = None\<rparr>]\<rparr>"
  have run: "updateAlerts sample_engine (JObj [(''bitcoin'', ?info)]) initial = (Done, ?s')"
    by (simp add: eval_render eval_format eval_strings)
  have mem: "(''bitcoin'', ?info) \<in> set [(''bitcoin'', ?info)]" by simp
  have al: "get_field ?info ''alerts'' = Inr (JArr [?alert])" by simp
  have a: "?alert \<in> set [?alert]" by simp
  have ty: "get_field ?alert ''type'' = Inr JUndefined" by simp
  from alert_low_unless_type_high [OF run mem al a ty] run ty
  show ?thesis by simp
qed



subsection \<open>The chart\<close>




subsection \<open>Missing and malformed fields\<close>

lemma numeric_fieldD:
  "numeric_field v k \<Longrightarrow> \<exists>x. get_field v k = Inr x \<and> number_or_missing x"
  by (simp add: numeric_field_def split: sum.splits)

lemma get_field_other: "get_field v k = Inr x \<Longrightarrow> \<exists>y. get_field v k' = Inr y"
  by (cases v) simp_all

lemma number_or_missing_or_zero: "number_or_missing v \<Longrightarrow> number_or_missing (or_zero v)"
  by (cases v) (simp_all add: or_zero_def)

lemma formatNumber_missing: "number_or_missing v \<Longrightarrow> \<exists>t. formatNumber eng v = Inr t"
  by (cases v) (simp_all add: formatNumber_def ToIntlMathematicalValue_def bind_def)

lemma formatPrice_missing: "number_or_missing v \<Longrightarrow> \<exists>t. formatPrice eng v = Inr t"
  using formatNumber_missing [of v eng] by (auto simp: formatPrice_def bind_def)

lemma formatChange_missing: "number_or_missing v \<Longrightarrow> \<exists>t. formatChange eng v = Inr t"
  by (cases v)
    (simp_all add: formatChange_def ge0_def ToNumber_def formatNumber_def
      ToIntlMathematicalValue_def bind_def Let_def)

lemma row_cells_missing:
  assumes "snapshot_or_missing info"
  shows "\<exists>cells. row_cells eng coin info = Inr cells"
proof -
  from assms obtain usd chg rsi ma7 ma30 where
    f: "get_field info ''usd'' = Inr usd" "get_field info ''usd_24h_change'' = Inr chg"
       "get_field info ''rsi'' = Inr rsi" "get_field info ''ma_7'' = Inr ma7"
       "get_field info ''ma_30'' = Inr ma30"
    and n: "number_or_missing usd" "number_or_missing chg" "number_or_missing rsi"
       "number_or_missing ma7" "number_or_missing ma30"
    unfolding snapshot_or_missing_def by (blast dest: numeric_fieldD)
  from n obtain c2 c3 c4 c5 c6 where
    "formatPrice eng usd = Inr c2" "formatChange eng chg = Inr c3"
    "formatNumber eng (or_zero rsi) = Inr c4" "formatPrice eng (or_zero ma7) = Inr c5"
    "formatPrice eng (or_zero ma30) = Inr c6"
    using formatPrice_missing formatChange_missing formatNumber_missing
      number_or_missing_or_zero by metis
  with f show ?thesis by (simp add: row_cells_def bind_def)
qed

lemma rows_of_missing:
  "list_all (\<lambda>(coin, info). snapshot_or_missing info) kvs \<Longrightarrow> fst (rows_of eng kvs) = Done"
proof (induction kvs)
  case Nil
  show ?case by simp
next
  case (Cons kv kvs)
  obtain coin info where kv: "kv = (coin, info)" by (cases kv)
  from Cons.prems kv have "snapshot_or_missing info" by simp
  from row_cells_missing [OF this] obtain cells where "row_cells eng coin info = Inr cells"
    by blast
  with Cons show ?case
    unfolding kv by (simp add: make_row_def bind_def)
qed

lemma make_alert_missing:
  assumes "numeric_field a ''threshold''"
  shows "\<exists>e. make_alert eng coin a = Inr e"
proof -
  from numeric_fieldD [OF assms] obtain x
    where x: "get_field a ''threshold'' = Inr x" and n: "number_or_missing x" by blast
  from get_field_other [OF x] obtain ty where ty: "get_field a ''type'' = Inr ty" by blast
  from formatPrice_missing [OF n] obtain p where "formatPrice eng x = Inr p" by blast
  with x ty show ?thesis by (simp add: make_alert_def bind_def)
qed

lemma alert_elements_missing:
  "list_all (\<lambda>a. numeric_field a ''threshold'') as \<Longrightarrow> fst (alert_elements eng coin as) = Done"
proof (induction as)
  case Nil
  show ?case by simp
next
  case (Cons a as)
  then have "numeric_field a ''threshold''" by simp
  from make_alert_missing [OF this] obtain e where "make_alert eng coin a = Inr e" by blast
  with Cons show ?case by simp
qed

lemma alerts_of_missing:
  "list_all (\<lambda>(coin, info). snapshot_or_missing info) kvs \<Longrightarrow> fst (alerts_of eng kvs) = Done"
proof (induction kvs)
  case Nil
  show ?case by simp
next
  case (Cons kv kvs)
  obtain coin info where kv: "kv = (coin, info)" by (cases kv)
  from Cons.prems kv obtain alerts
    where a: "get_field info ''alerts'' = Inr alerts" and m: "alerts_or_missing alerts"
    by (auto simp: snapshot_or_missing_def split: sum.splits)
  from Cons have rest: "fst (alerts_of eng kvs) = Done" by simp
  show ?case
  proof (cases "truthy alerts")
    case False
    with a rest show ?thesis unfolding kv by simp
  next
    case True
    with m obtain as where as: "alerts = JArr as"
      and ok: "list_all (\<lambda>a. numeric_field a ''threshold'') as"
      by (auto simp: alerts_or_missing_def split: jsval.splits)
    from alert_elements_missing [OF ok] a as rest show ?thesis
      unfolding kv by simp
  qed
qed






subsection \<open>Events of the declared types\<close>

lemma map_err_ok:
  "list_all (\<lambda>a. \<exists>b. f a = Inr b) as \<Longrightarrow> \<exists>bs. map_err f as = Inr bs"
  by (induction as) (auto simp: bind_def)

lemma ToNumber_missing: "number_or_missing v \<Longrightarrow> \<exists>n. ToNumber eng v = Inr n"
  by (cases v) (simp_all add: ToNumber_def)

lemma make_trace_points:
  assumes "list_all (\<lambda>d. numeric_field d ''timestamp'') ds"
  shows "\<exists>t. make_trace eng coin ds = Inr t"
proof -
  have stamp: "\<exists>b. bind (get_field d ''timestamp'')
      (\<lambda>t. bind (ToNumber eng t) (\<lambda>n. Inr (DateOfSeconds n))) = Inr b"
    and price: "\<exists>b. get_field d ''price'' = Inr b"
    if "numeric_field d ''timestamp''" for d
  proof -
    from numeric_fieldD [OF that] obtain x
      where x: "get_field d ''timestamp'' = Inr x" and n: "number_or_missing x" by blast
    from ToNumber_missing [OF n] obtain m where "ToNumber eng x = Inr m" by blast
    with x show "\<exists>b. bind (get_field d ''timestamp'')
        (\<lambda>t. bind (ToNumber eng t) (\<lambda>n. Inr (DateOfSeconds n))) = Inr b"
      by (simp add: bind_def)
    from get_field_other [OF x] show "\<exists>b. get_field d ''price'' = Inr b" .
  qed
  from assms stamp have "list_all (\<lambda>d. \<exists>b. bind (get_field d ''timestamp'')
      (\<lambda>t. bind (ToNumber eng t) (\<lambda>n. Inr (DateOfSeconds n))) = Inr b) ds"
    by (simp add: list_all_iff)
  from map_err_ok [OF this] obtain xs where xs: "map_err (\<lambda>d. bind (get_field d ''timestamp'')
      (\<lambda>t. bind (ToNumber eng t) (\<lambda>n. Inr (DateOfSeconds n)))) ds = Inr xs"
    by blast
  from assms price have "list_all (\<lambda>d. \<exists>b. get_field d ''price'' = Inr b) ds"
    by (simp add: list_all_iff)
  from map_err_ok [OF this] obtain ys where "map_err (\<lambda>d. get_field d ''price'') ds = Inr ys"
    by blast
  with xs show ?thesis by (simp add: make_trace_def bind_def)
qed

text \<open>
  An event of the declared types is handled without an exception: the snapshot of every
  coin has its fields missing or of their kind, and the history of the selected coin is an
  array of points with a missing or numeric timestamp.
\<close>

lemma price_update_returns:
  assumes "latest_data data = JObj kvs"
    and "list_all (\<lambda>(coin, info). snapshot_or_missing info) kvs"
    and "price_history data = Some history"
    and "map_of history (selectedCoin s) = Some (JArr ds)"
    and "list_all (\<lambda>d. numeric_field d ''timestamp'') ds"
  shows "fst (on_price_update eng data s) = Done"
proof -
  from make_trace_points [OF assms(5)] obtain t
    where "make_trace eng (selectedCoin s) ds = Inr t" by blast
  with assms(3,4)
  have chart: "fst (updatePriceChart eng (selectedCoin s) (price_history data) s) = Done"
    by (simp add: updatePriceChart_def)
  from assms(1) rows_of_missing [OF assms(2)]
  have table: "fst (table_of eng (latest_data data)) = Done"
    by (simp add: table_of_def)
  from assms(1) alerts_of_missing [OF assms(2)]
  have alerts: "fst (alert_list_of eng (latest_data data)) = Done"
    by (simp add: alert_list_of_def)
  from table chart alerts show ?thesis
    by (simp add: on_price_update_eq)
qed

end
